theory Spec2Isabelle
  imports Complex_Main
begin

section \<open>Data model\<close>

text \<open>
  JavaScript numbers are modelled as real numbers (rounding, infinities and NaN are outside
  the model); counters that the code only ever sets to zero and increments are naturals.
\<close>

record RoutePoint =
  pt_t :: real
  pt_x :: real
  pt_y :: real
  pt_z :: real
  pt_dim :: string

record SessionStats =
  samples :: real
  distanceXZ :: real

record PlayerSession =
  session_id :: string
  playerUuid :: string
  playerName :: string
  startedAt :: real
  endedAt :: "real option"
  active :: bool
  lastSeenAt :: real
  stats :: SessionStats
  path :: "RoutePoint list"

record Transform =
  offsetX :: real
  offsetY :: real
  scale :: real

record Dimensions =
  width :: real
  height :: real

section \<open>Geometry and interaction (MapCanvas.tsx)\<close>

definition centerOnPosition :: "Transform \<Rightarrow> real \<Rightarrow> real \<Rightarrow> Transform" where
  "centerOnPosition transform x z =
     (let sc = max (scale transform) 4
      in \<lparr>offsetX = - x * sc, offsetY = - z * sc, scale = sc\<rparr>)"

definition worldToScreen :: "Transform \<Rightarrow> Dimensions \<Rightarrow> real \<Rightarrow> real \<Rightarrow> real \<times> real" where
  "worldToScreen transform dimensions x z =
     (let screenX = (x * scale transform) + offsetX transform + width dimensions / 2;
          screenY = (z * scale transform) + offsetY transform + height dimensions / 2
      in (screenX, screenY))"

definition screenToWorld :: "Transform \<Rightarrow> Dimensions \<Rightarrow> real \<Rightarrow> real \<Rightarrow> real \<times> real" where
  "screenToWorld transform dimensions screenX screenY =
     (let x = (screenX - width dimensions / 2 - offsetX transform) / scale transform;
          z = (screenY - height dimensions / 2 - offsetY transform) / scale transform
      in (x, z))"

record WheelEvent =
  deltaY :: real
  clientX :: real
  clientY :: real

record DOMRect =
  rect_left :: real
  rect_top :: real

text \<open>
  \<open>handleWheel\<close> reads the scale of the rendered transform (the closure's \<open>transform\<close>) for
  the new scale, and the state updater's \<open>prev\<close> for the offsets. Without a canvas rectangle
  it returns before the update.
\<close>

definition wheelDelta :: "WheelEvent \<Rightarrow> real" where
  "wheelDelta e = (if deltaY e > 0 then 0.9 else 1.1)"

definition handleWheel ::
  "Transform \<Rightarrow> Dimensions \<Rightarrow> DOMRect option \<Rightarrow> WheelEvent \<Rightarrow> Transform \<Rightarrow> Transform" where
  "handleWheel transform dimensions rect e prev =
     (let delta = wheelDelta e;
          newScale = min (max (scale transform * delta) 0.01) 50
      in case rect of
           None \<Rightarrow> prev
         | Some r \<Rightarrow>
             (let mouseX = clientX e - rect_left r - width dimensions / 2;
                  mouseY = clientY e - rect_top r - height dimensions / 2
              in \<lparr>offsetX = mouseX - (mouseX - offsetX prev) * (newScale / scale prev),
                  offsetY = mouseY - (mouseY - offsetY prev) * (newScale / scale prev),
                  scale = newScale\<rparr>))"

section \<open>World bounds (MapCanvas.tsx)\<close>

record WorldBounds =
  minX :: real
  maxX :: real
  minZ :: real
  maxZ :: real
  initialized :: bool

definition CHUNK_SIZE :: real where
  "CHUNK_SIZE = 16"

definition DIMENSION_FULL_IDS :: "string \<Rightarrow> string option" where
  "DIMENSION_FULL_IDS d =
     (if d = ''overworld'' then Some ''minecraft:overworld''
      else if d = ''the_nether'' then Some ''minecraft:the_nether''
      else if d = ''the_end'' then Some ''minecraft:the_end''
      else None)"

definition fullDimId :: "string \<Rightarrow> string" where
  "fullDimId currentDimension =
     (case DIMENSION_FULL_IDS currentDimension of
        Some d \<Rightarrow> d
      | None \<Rightarrow> ''minecraft:overworld'')"

datatype tile = Loading | Error | Empty | Image

record canvas_state =
  transform :: Transform
  hasInitializedView :: bool
  worldBounds :: WorldBounds
  tileCache :: "(string \<times> int \<times> int) \<rightharpoonup> tile"
  loadingTilesCount :: int
  tilesLoaded :: nat

definition reset_bounds :: WorldBounds where
  "reset_bounds = \<lparr>minX = 0, maxX = 0, minZ = 0, maxZ = 0, initialized = False\<rparr>"

definition initial_canvas :: canvas_state where
  "initial_canvas =
     \<lparr>transform = \<lparr>offsetX = 0, offsetY = 0, scale = 2\<rparr>,
      hasInitializedView = False,
      worldBounds = reset_bounds,
      tileCache = Map.empty,
      loadingTilesCount = 0,
      tilesLoaded = 0\<rparr>"

text \<open>
  The \<open>onload\<close> handler that \<open>loadTile\<close> installs on the image of chunk
  \<open>(chunkX, chunkZ)\<close>, for an image of the given natural size.
\<close>

definition img_onload ::
  "canvas_state \<Rightarrow> string \<Rightarrow> int \<Rightarrow> int \<Rightarrow> nat \<Rightarrow> nat \<Rightarrow> canvas_state" where
  "img_onload c dimension chunkX chunkZ naturalWidth naturalHeight =
     (let key = (dimension, chunkX, chunkZ);
          c1 = c\<lparr>loadingTilesCount := loadingTilesCount c - 1\<rparr>;
          c2 =
            (if naturalWidth \<le> 1 \<or> naturalHeight \<le> 1
             then c1\<lparr>tileCache := (tileCache c1)(key \<mapsto> Empty)\<rparr>
             else
               (let worldX = of_int chunkX * CHUNK_SIZE;
                    worldZ = of_int chunkZ * CHUNK_SIZE;
                    b = worldBounds c1;
                    b1 =
                      (if \<not> initialized b
                       then \<lparr>minX = worldX, maxX = worldX + CHUNK_SIZE,
                             minZ = worldZ, maxZ = worldZ + CHUNK_SIZE, initialized = True\<rparr>
                       else b\<lparr>minX := min (minX b) worldX,
                              maxX := max (maxX b) (worldX + CHUNK_SIZE),
                              minZ := min (minZ b) worldZ,
                              maxZ := max (maxZ b) (worldZ + CHUNK_SIZE)\<rparr>)
                in c1\<lparr>tileCache := (tileCache c1)(key \<mapsto> Image), worldBounds := b1\<rparr>))
      in c2\<lparr>tilesLoaded := tilesLoaded c2 + 1\<rparr>)"

text \<open>
  The effect that centres the view when sessions load; \<open>session_list\<close> is the session map's
  values in the map's iteration order.
\<close>

definition auto_center ::
  "canvas_state \<Rightarrow> PlayerSession list \<Rightarrow> string \<Rightarrow> canvas_state" where
  "auto_center c session_list currentDimension =
     (if hasInitializedView c then c
      else if session_list = [] then c
      else
        (let dim = fullDimId currentDimension in
         case find (\<lambda>session. active session \<and> path session \<noteq> [] \<and>
                                 pt_dim (last (path session)) = dim) session_list of
           Some session \<Rightarrow>
             (let lastPoint = last (path session)
              in c\<lparr>transform := \<lparr>offsetX = - pt_x lastPoint * 2,
                                   offsetY = - pt_z lastPoint * 2, scale = 2\<rparr>,
                   hasInitializedView := True\<rparr>)
         | None \<Rightarrow>
             (case List.map_filter (\<lambda>session. find (\<lambda>p. pt_dim p = dim) (path session))
                     session_list of
                [] \<Rightarrow> c
              | pointInDim # _ \<Rightarrow>
                  (let c1 = c\<lparr>transform := \<lparr>offsetX = - pt_x pointInDim * 2,
                                              offsetY = - pt_z pointInDim * 2, scale = 2\<rparr>,
                              hasInitializedView := True\<rparr>;
                       allPointsInDim =
                         concat (map (\<lambda>s. filter (\<lambda>p. pt_dim p = dim) (path s)) session_list)
                   in case allPointsInDim of
                        [] \<Rightarrow> c1
                      | p # ps \<Rightarrow>
                          (let xs = map pt_x ps; zs = map pt_z ps
                           in c1\<lparr>worldBounds :=
                                   \<lparr>minX = fold min xs (pt_x p) - 100,
                                    maxX = fold max xs (pt_x p) + 100,
                                    minZ = fold min zs (pt_z p) - 100,
                                    maxZ = fold max zs (pt_z p) + 100,
                                    initialized = True\<rparr>\<rparr>)))))"

text \<open>
  The rectangle of bounds \<open>b\<close> contains the rectangle of bounds \<open>a\<close>; bounds that are not
  initialized hold nothing.
\<close>

definition bounds_superset :: "WorldBounds \<Rightarrow> WorldBounds \<Rightarrow> bool" where
  "bounds_superset b a =
     (if initialized a
      then initialized b \<and> minX b \<le> minX a \<and> maxX a \<le> maxX b \<and>
           minZ b \<le> minZ a \<and> maxZ a \<le> maxZ b
      else True)"

datatype bounds_event =
    TileLoaded string int int nat nat
  | SessionsChanged "PlayerSession list" string

fun bounds_step :: "canvas_state \<Rightarrow> bounds_event \<Rightarrow> canvas_state" where
  "bounds_step c (TileLoaded dimension chunkX chunkZ w h) =
     img_onload c dimension chunkX chunkZ w h"
| "bounds_step c (SessionsChanged session_list currentDimension) =
     auto_center c session_list currentDimension"

fun is_TileLoaded :: "bounds_event \<Rightarrow> bool" where
  "is_TileLoaded (TileLoaded dimension chunkX chunkZ w h) = True"
| "is_TileLoaded e = False"

section \<open>Route chevrons (MapCanvas.tsx)\<close>










section \<open>Live sync handler (hooks/useWebSocket.ts)\<close>

subsection \<open>The platform: sockets and timers\<close>

text \<open>
  The hook creates WebSocket objects and timers and keeps references to them. A socket is
  the index of its ready state in the list of all sockets created so far; a timer is the
  index of its entry (delay in milliseconds, still pending) in the list of all
  \<open>setTimeout(connect, delay)\<close> calls made so far.
\<close>

datatype readyState = CONNECTING | OPEN | CLOSING | CLOSED

record hook_state =
  sockets :: "readyState list"
  timers :: "(nat \<times> bool) list"
  wsRef :: "nat option"
  connected :: bool
  reconnectTimeoutRef :: "nat option"
  reconnectAttemptsRef :: nat
  historicalLoadedRef :: bool
  sessions :: "string \<rightharpoonup> PlayerSession"
  worldTime :: "real option"

definition initial_state :: hook_state where
  "initial_state =
     \<lparr>sockets = [], timers = [], wsRef = None, connected = False,
      reconnectTimeoutRef = None, reconnectAttemptsRef = 0,
      historicalLoadedRef = False, sessions = Map.empty, worldTime = None\<rparr>"

definition readyStateOf :: "hook_state \<Rightarrow> nat \<Rightarrow> readyState option" where
  "readyStateOf s w = (if w < length (sockets s) then Some (sockets s ! w) else None)"

definition clearTimeout :: "hook_state \<Rightarrow> nat \<Rightarrow> hook_state" where
  "clearTimeout s h =
     (if h < length (timers s)
      then s\<lparr>timers := (timers s)[h := (fst (timers s ! h), False)]\<rparr>
      else s)"

definition ws_close :: "hook_state \<Rightarrow> nat \<Rightarrow> hook_state" where
  "ws_close s w =
     (if readyStateOf s w = Some CONNECTING \<or> readyStateOf s w = Some OPEN
      then s\<lparr>sockets := (sockets s)[w := CLOSING]\<rparr>
      else s)"

subsection \<open>connect and its handlers\<close>

definition connect :: "hook_state \<Rightarrow> hook_state" where
  "connect s =
     (if (case wsRef s of None \<Rightarrow> False | Some w \<Rightarrow> readyStateOf s w = Some OPEN)
      then s
      else s\<lparr>sockets := sockets s @ [CONNECTING], wsRef := Some (length (sockets s))\<rparr>)"

definition onopen :: "hook_state \<Rightarrow> hook_state" where
  "onopen s = s\<lparr>connected := True, reconnectAttemptsRef := 0\<rparr>"

definition backoff_delay :: "nat \<Rightarrow> nat" where
  "backoff_delay n = min (1000 * 2 ^ n) 30000"

definition onclose :: "hook_state \<Rightarrow> hook_state" where
  "onclose s =
     (let delay = backoff_delay (reconnectAttemptsRef s)
      in s\<lparr>connected := False,
           wsRef := None,
           reconnectAttemptsRef := reconnectAttemptsRef s + 1,
           timers := timers s @ [(delay, True)],
           reconnectTimeoutRef := Some (length (timers s))\<rparr>)"

definition disconnect :: "hook_state \<Rightarrow> hook_state" where
  "disconnect s =
     (let s1 = (case reconnectTimeoutRef s of None \<Rightarrow> s | Some h \<Rightarrow> clearTimeout s h)
      in (case wsRef s1 of None \<Rightarrow> s1 | Some w \<Rightarrow> ws_close s1 w))"

text \<open>The effect's cleanup runs the same two steps as \<open>disconnect\<close>.\<close>

definition cleanup :: "hook_state \<Rightarrow> hook_state" where
  "cleanup s =
     (let s1 = (case reconnectTimeoutRef s of None \<Rightarrow> s | Some h \<Rightarrow> clearTimeout s h)
      in (case wsRef s1 of None \<Rightarrow> s1 | Some w \<Rightarrow> ws_close s1 w))"

text \<open>The hook returns \<open>reconnect: connect\<close>.\<close>

definition reconnect :: "hook_state \<Rightarrow> hook_state" where
  "reconnect s = connect s"

subsection \<open>Events\<close>

text \<open>
  The platform opens a socket that is connecting, closes a socket that is not yet closed,
  and fires a timer that is still pending; each runs the handler the hook installed. The
  consumer calls the operations the hook exposes and unmounts it.
\<close>

datatype event =
    Opened nat
  | Closed nat
  | TimerFired nat
  | CallConnect
  | CallReconnect
  | CallDisconnect
  | Unmount

fun step :: "hook_state \<Rightarrow> event \<Rightarrow> hook_state" where
  "step s (Opened w) =
     (if readyStateOf s w = Some CONNECTING
      then onopen (s\<lparr>sockets := (sockets s)[w := OPEN]\<rparr>)
      else s)"
| "step s (Closed w) =
     (if w < length (sockets s) \<and> readyStateOf s w \<noteq> Some CLOSED
      then onclose (s\<lparr>sockets := (sockets s)[w := CLOSED]\<rparr>)
      else s)"
| "step s (TimerFired h) =
     (if h < length (timers s) \<and> snd (timers s ! h)
      then connect (s\<lparr>timers := (timers s)[h := (fst (timers s ! h), False)]\<rparr>)
      else s)"
| "step s CallConnect = connect s"
| "step s CallReconnect = reconnect s"
| "step s CallDisconnect = disconnect s"
| "step s Unmount = cleanup s"

definition run :: "hook_state \<Rightarrow> event list \<Rightarrow> hook_state" where
  "run s es = foldl step s es"

fun is_Opened :: "event \<Rightarrow> bool" where
  "is_Opened (Opened w) = True"
| "is_Opened e = False"

definition scheduled_delays :: "hook_state \<Rightarrow> nat list" where
  "scheduled_delays s = map fst (timers s)"

definition pending_timers :: "hook_state \<Rightarrow> nat list" where
  "pending_timers s = map fst (filter snd (timers s))"

subsection \<open>Messages\<close>

definition planar_distance :: "RoutePoint \<Rightarrow> RoutePoint \<Rightarrow> real" where
  "planar_distance lastPoint point =
     (let dx = pt_x point - pt_x lastPoint;
          dz = pt_z point - pt_z lastPoint
      in sqrt (dx * dx + dz * dz))"

text \<open>The state update of the \<open>route_point\<close> case of \<open>handleMessage\<close>.\<close>

definition route_point_session :: "PlayerSession \<Rightarrow> RoutePoint \<Rightarrow> PlayerSession" where
  "route_point_session session point =
     (let path1 = path session @ [point];
          samples1 = samples (stats session) + 1;
          distance1 =
            (if length path1 > 1
             then distanceXZ (stats session) + planar_distance (path1 ! (length path1 - 2)) point
             else distanceXZ (stats session))
      in session\<lparr>path := path1,
                 lastSeenAt := pt_t point,
                 stats := \<lparr>samples = samples1, distanceXZ = distance1\<rparr>\<rparr>)"

definition route_point :: "hook_state \<Rightarrow> string \<Rightarrow> RoutePoint \<Rightarrow> real option \<Rightarrow> hook_state" where
  "route_point s sessionId point wt =
     (let next = (case sessions s sessionId of
                    None \<Rightarrow> sessions s
                  | Some session \<Rightarrow> (sessions s)(sessionId \<mapsto> route_point_session session point));
          s1 = s\<lparr>sessions := next\<rparr>
      in (case wt of None \<Rightarrow> s1 | Some w \<Rightarrow> s1\<lparr>worldTime := Some w\<rparr>))"

definition session_start :: "hook_state \<Rightarrow> PlayerSession \<Rightarrow> hook_state" where
  "session_start s session = s\<lparr>sessions := (sessions s)(session_id session \<mapsto> session)\<rparr>"

fun ingest :: "hook_state \<Rightarrow> string \<Rightarrow> RoutePoint list \<Rightarrow> hook_state" where
  "ingest s sessionId [] = s"
| "ingest s sessionId (p # ps) = ingest (route_point s sessionId p None) sessionId ps"

subsection \<open>Historical sessions\<close>

text \<open>The loop of the state updater in \<open>fetchHistoricalSessions\<close>.\<close>

fun merge_historical ::
  "(string \<rightharpoonup> PlayerSession) \<Rightarrow> PlayerSession list \<Rightarrow> (string \<rightharpoonup> PlayerSession)" where
  "merge_historical next [] = next"
| "merge_historical next (session # rest) =
     merge_historical
       (if next (session_id session) = None then next(session_id session \<mapsto> session) else next)
       rest"

text \<open>
  \<open>fetchHistoricalSessions\<close> returns at once when the one-shot flag is set; otherwise it
  awaits the fetch. What the fetch produced: it threw, the response was not ok, or it was
  ok and carried a body whose \<open>sessions\<close> field is an array or is not. The continuation
  runs on the state the hook has when the response arrives.
\<close>

datatype fetch_result = FetchThrew | NotOk | OkBody "PlayerSession list option"

definition fetchHistoricalSessions_issues :: "hook_state \<Rightarrow> bool" where
  "fetchHistoricalSessions_issues s = (\<not> historicalLoadedRef s)"

definition fetchHistoricalSessions_resume :: "hook_state \<Rightarrow> fetch_result \<Rightarrow> hook_state" where
  "fetchHistoricalSessions_resume s r =
     (case r of
        OkBody (Some data_sessions) \<Rightarrow>
          s\<lparr>sessions := merge_historical (sessions s) data_sessions,
             historicalLoadedRef := True\<rparr>
      | _ \<Rightarrow> s)"

section \<open>Sample data\<close>

abbreviation mk_point :: "real \<Rightarrow> real \<Rightarrow> RoutePoint" where
  "mk_point x z \<equiv>
     \<lparr>pt_t = 0, pt_x = x, pt_y = 64, pt_z = z, pt_dim = ''minecraft:overworld''\<rparr>"

abbreviation mk_session :: "string \<Rightarrow> bool \<Rightarrow> RoutePoint list \<Rightarrow> PlayerSession" where
  "mk_session sid act pts \<equiv>
     \<lparr>session_id = sid, playerUuid = ''u'', playerName = ''n'', startedAt = 0,
      endedAt = None, active = act, lastSeenAt = 0,
      stats = \<lparr>samples = 0, distanceXZ = 0\<rparr>, path = pts\<rparr>"


abbreviation viewport0 :: Dimensions where
  "viewport0 \<equiv> \<lparr>width = 800, height = 600\<rparr>"

section \<open>Square roots of the sample distances\<close>

lemma sqrt_25: "sqrt 25 = 5"
  by (rule real_sqrt_unique) simp_all




section \<open>Distance accumulation\<close>

lemma route_point_session_last:
  "route_point_session session p =
     session\<lparr>path := path session @ [p], lastSeenAt := pt_t p,
       stats := \<lparr>samples = samples (stats session) + 1,
                 distanceXZ = distanceXZ (stats session) +
                   (if path session = [] then 0 else planar_distance (last (path session)) p)\<rparr>\<rparr>"
proof (cases "path session = []")
  case True
  then show ?thesis by (simp add: route_point_session_def Let_def)
next
  case False
  then have "(path session @ [p]) ! (length (path session) - Suc 0) = last (path session)"
    by (simp add: nth_append last_conv_nth)
  with False show ?thesis by (simp add: route_point_session_def Let_def)
qed

lemma planar_distance_same:
  "pt_x p = pt_x q \<Longrightarrow> pt_z p = pt_z q \<Longrightarrow> planar_distance q p = 0"
  by (simp add: planar_distance_def)

lemma sessions_route_point:
  "sessions (route_point s sid p wt) =
     (case sessions s sid of None \<Rightarrow> sessions s
      | Some session \<Rightarrow> (sessions s)(sid \<mapsto> route_point_session session p))"
  by (simp add: route_point_def Let_def split: option.splits)

text \<open>
  C1. For a session present in the session map, a \<open>route_point\<close> message appends the point,
  sets \<open>lastSeenAt\<close> to the point's time, adds one to \<open>samples\<close>, and adds to \<open>distanceXZ\<close>
  the planar X/Z distance from the previously last point when there was one, and nothing
  for the first point. A further point at the same X/Z as the one before it leaves
  \<open>distanceXZ\<close> as it is, and a session that starts with no points and distance 0 and
  ingests points at \<open>(0,0)\<close>, \<open>(3,4)\<close>, \<open>(3,4)\<close> ends with \<open>distanceXZ = 5\<close>.
\<close>

theorem route_point_accumulates:
  assumes "sessions s sid = Some session"
  shows "sessions (route_point s sid p wt) sid =
       Some (session\<lparr>path := path session @ [p], lastSeenAt := pt_t p,
         stats := \<lparr>samples = samples (stats session) + 1,
                   distanceXZ = distanceXZ (stats session) +
                     (if path session = [] then 0
                      else planar_distance (last (path session)) p)\<rparr>\<rparr>) \<and>
     (pt_x p' = pt_x p \<and> pt_z p' = pt_z p \<longrightarrow>
        map_option (distanceXZ \<circ> stats)
          (sessions (route_point (route_point s sid p wt) sid p' wt') sid) =
        map_option (distanceXZ \<circ> stats) (sessions (route_point s sid p wt) sid)) \<and>
     (path session = [] \<and> distanceXZ (stats session) = 0 \<and>
      pt_x a = 0 \<and> pt_z a = 0 \<and> pt_x b = 3 \<and> pt_z b = 4 \<and> pt_x c = 3 \<and> pt_z c = 4 \<longrightarrow>
        map_option (distanceXZ \<circ> stats) (sessions (ingest s sid [a, b, c]) sid) = Some 5)"
  using assms
  by (simp add: sessions_route_point route_point_session_last planar_distance_same)
     (simp add: planar_distance_def sqrt_25)

theorem route_point_accumulates_witness:
  "sessions (session_start initial_state (mk_session ''S'' True [])) ''S''
     = Some (mk_session ''S'' True []) \<and>
   map_option (distanceXZ \<circ> stats)
     (sessions (ingest (session_start initial_state (mk_session ''S'' True [])) ''S''
        [mk_point 0 0, mk_point 3 4, mk_point 3 4]) ''S'') = Some 5 \<and>
   map_option (distanceXZ \<circ> stats)
     (sessions (route_point (route_point (session_start initial_state (mk_session ''S'' True []))
         ''S'' (mk_point 3 4) None) ''S'' (mk_point 3 4) None) ''S'') = Some 0"
proof -
  have h: "sessions (session_start initial_state (mk_session ''S'' True [])) ''S''
     = Some (mk_session ''S'' True [])"
    by (simp add: session_start_def initial_state_def)
  show ?thesis
    using h route_point_accumulates [OF h, of "mk_point 3 4" None "mk_point 3 4" None
        "mk_point 0 0" "mk_point 3 4" "mk_point 3 4"]
    by simp
qed

section \<open>Historical merge\<close>

lemma merge_historical_lookup:
  "merge_historical m hs k =
     (case m k of Some v \<Rightarrow> Some v | None \<Rightarrow> find (\<lambda>h. session_id h = k) hs)"
  by (induction hs arbitrary: m) (auto split: option.splits)

text \<open>
  C4. When the historical fetch result arrives, every session id already present in the
  session map keeps its entry unchanged, whatever the result holds for that id; an id that
  is not present gets the first historical session of the result with that id, if any.
\<close>

theorem historical_merge_non_clobber:
  assumes "sessions s S = Some live"
  shows "sessions (fetchHistoricalSessions_resume s r) S = Some live \<and>
    (\<forall>sid. sessions s sid = None \<longrightarrow>
       sessions (fetchHistoricalSessions_resume s r) sid =
         (case r of OkBody (Some hs) \<Rightarrow> find (\<lambda>h. session_id h = sid) hs | _ \<Rightarrow> None))"
  using assms
  by (auto simp: fetchHistoricalSessions_resume_def merge_historical_lookup
           split: fetch_result.splits option.splits)

theorem historical_merge_non_clobber_witness:
  "sessions (session_start initial_state (mk_session ''S'' True [mk_point 1 2])) ''S''
     = Some (mk_session ''S'' True [mk_point 1 2]) \<and>
   sessions (session_start initial_state (mk_session ''S'' True [mk_point 1 2])) ''T'' = None \<and>
   sessions (fetchHistoricalSessions_resume
       (session_start initial_state (mk_session ''S'' True [mk_point 1 2]))
       (OkBody (Some [mk_session ''S'' False [], mk_session ''T'' False []]))) ''S''
     = Some (mk_session ''S'' True [mk_point 1 2]) \<and>
   sessions (fetchHistoricalSessions_resume
       (session_start initial_state (mk_session ''S'' True [mk_point 1 2]))
       (OkBody (Some [mk_session ''S'' False [], mk_session ''T'' False []]))) ''T''
     = Some (mk_session ''T'' False [])"
proof -
  have h: "sessions (session_start initial_state (mk_session ''S'' True [mk_point 1 2])) ''S''
     = Some (mk_session ''S'' True [mk_point 1 2])"
    by (simp add: session_start_def initial_state_def)
  have n: "sessions (session_start initial_state (mk_session ''S'' True [mk_point 1 2])) ''T''
     = None"
    by (simp add: session_start_def initial_state_def)
  show ?thesis
    using h n historical_merge_non_clobber [OF h,
        of "OkBody (Some [mk_session ''S'' False [], mk_session ''T'' False []])"]
    by simp
qed

section \<open>Zoom to cursor\<close>

lemma wheel_scale_range:
  "(0.01::real) \<le> min (max v 0.01) 50 \<and> min (max v 0.01) 50 \<le> (50::real)"
  by simp

lemma wheel_resolve:
  fixes n sp m off :: real
  assumes "n \<noteq> 0" "sp \<noteq> 0"
  shows "(m - (m - (m - off) * (n / sp))) / n = (m - off) / sp"
  using assms by (simp add: field_simps)

text \<open>
  C7. For a wheel event on the canvas, at any cursor position and from any prior transform
  with a non-zero scale, the new scale is the rendered scale times 0.9 (wheel down) or 1.1
  (wheel up) clamped to \<open>[0.01, 50]\<close>, and the world coordinate under the cursor is the
  same before and after the update (so the two differ by less than any positive epsilon).
\<close>

theorem wheel_zoom_to_cursor:
  assumes "scale prev \<noteq> 0"
  shows "scale (handleWheel tr dimensions (Some rect) e prev) =
           min (max (scale tr * (if deltaY e > 0 then 0.9 else 1.1)) 0.01) 50 \<and>
         0.01 \<le> scale (handleWheel tr dimensions (Some rect) e prev) \<and>
         scale (handleWheel tr dimensions (Some rect) e prev) \<le> 50 \<and>
         screenToWorld (handleWheel tr dimensions (Some rect) e prev) dimensions
             (clientX e - rect_left rect) (clientY e - rect_top rect) =
           screenToWorld prev dimensions
             (clientX e - rect_left rect) (clientY e - rect_top rect)"
proof -
  define n :: real where "n = min (max (scale tr * wheelDelta e) 0.01) 50"
  define mx where "mx = clientX e - rect_left rect - width dimensions / 2"
  define my where "my = clientY e - rect_top rect - height dimensions / 2"
  have new: "handleWheel tr dimensions (Some rect) e prev =
      \<lparr>offsetX = mx - (mx - offsetX prev) * (n / scale prev),
       offsetY = my - (my - offsetY prev) * (n / scale prev), scale = n\<rparr>"
    by (simp add: handleWheel_def Let_def n_def mx_def my_def)
  have rng: "0.01 \<le> n \<and> n \<le> 50"
    unfolding n_def by (rule wheel_scale_range)
  have "0 < n" unfolding n_def by simp
  then have n0: "n \<noteq> 0" by simp
  have w: "screenToWorld (handleWheel tr dimensions (Some rect) e prev) dimensions
             (clientX e - rect_left rect) (clientY e - rect_top rect) =
           ((mx - (mx - (mx - offsetX prev) * (n / scale prev))) / n,
            (my - (my - (my - offsetY prev) * (n / scale prev))) / n)"
    by (simp add: new screenToWorld_def Let_def mx_def my_def)
  have v: "screenToWorld prev dimensions
             (clientX e - rect_left rect) (clientY e - rect_top rect) =
           ((mx - offsetX prev) / scale prev, (my - offsetY prev) / scale prev)"
    by (simp add: screenToWorld_def Let_def mx_def my_def)
  have sc: "scale (handleWheel tr dimensions (Some rect) e prev) = n"
    by (simp add: new)
  have nd: "n = min (max (scale tr * (if deltaY e > 0 then 0.9 else 1.1)) 0.01) 50"
    by (simp add: n_def wheelDelta_def)
  show ?thesis
    using rng nd by (simp only: w v sc wheel_resolve [OF n0 assms]) simp
qed

theorem wheel_zoom_to_cursor_witness:
  "scale \<lparr>offsetX = 10, offsetY = -20, scale = 2\<rparr> \<noteq> 0 \<and>
   scale (handleWheel \<lparr>offsetX = 10, offsetY = -20, scale = 2\<rparr> viewport0
       (Some \<lparr>rect_left = 0, rect_top = 0\<rparr>) \<lparr>deltaY = -1, clientX = 500, clientY = 100\<rparr>
       \<lparr>offsetX = 10, offsetY = -20, scale = 2\<rparr>) = 2.2 \<and>
   screenToWorld (handleWheel \<lparr>offsetX = 10, offsetY = -20, scale = 2\<rparr> viewport0
       (Some \<lparr>rect_left = 0, rect_top = 0\<rparr>) \<lparr>deltaY = -1, clientX = 500, clientY = 100\<rparr>
       \<lparr>offsetX = 10, offsetY = -20, scale = 2\<rparr>) viewport0 500 100 = (45, -90)"
  using wheel_zoom_to_cursor [of "\<lparr>offsetX = 10, offsetY = -20, scale = 2\<rparr>"
      "\<lparr>offsetX = 10, offsetY = -20, scale = 2\<rparr>" viewport0
      "\<lparr>rect_left = 0, rect_top = 0\<rparr>" "\<lparr>deltaY = -1, clientX = 500, clientY = 100\<rparr>"]
  by (simp add: screenToWorld_def)

section \<open>Reconnect backoff\<close>

lemma connect_keeps_backoff:
  "reconnectAttemptsRef (connect s) = reconnectAttemptsRef s \<and> timers (connect s) = timers s"
  by (simp add: connect_def)

lemma clearTimeout_keeps_backoff:
  "reconnectAttemptsRef (clearTimeout s h) = reconnectAttemptsRef s \<and>
   map fst (timers (clearTimeout s h)) = map fst (timers s)"
  by (simp add: clearTimeout_def map_update list_update_same_conv)

lemma ws_close_keeps_backoff:
  "reconnectAttemptsRef (ws_close s w) = reconnectAttemptsRef s \<and>
   timers (ws_close s w) = timers s"
  by (simp add: ws_close_def)

lemma disconnect_keeps_backoff:
  "reconnectAttemptsRef (disconnect s) = reconnectAttemptsRef s \<and>
   map fst (timers (disconnect s)) = map fst (timers s)"
  by (simp add: disconnect_def Let_def clearTimeout_keeps_backoff ws_close_keeps_backoff
           split: option.splits)

lemma cleanup_keeps_backoff:
  "reconnectAttemptsRef (cleanup s) = reconnectAttemptsRef s \<and>
   map fst (timers (cleanup s)) = map fst (timers s)"
  by (simp add: cleanup_def Let_def clearTimeout_keeps_backoff ws_close_keeps_backoff
           split: option.splits)

lemma closed_schedules:
  assumes "w < length (sockets s)" "readyStateOf s w \<noteq> Some CLOSED"
  shows "scheduled_delays (step s (Closed w)) =
           scheduled_delays s @ [backoff_delay (reconnectAttemptsRef s)] \<and>
         pending_timers (step s (Closed w)) =
           pending_timers s @ [backoff_delay (reconnectAttemptsRef s)] \<and>
         reconnectAttemptsRef (step s (Closed w)) = reconnectAttemptsRef s + 1"
  using assms by (simp add: onclose_def Let_def scheduled_delays_def pending_timers_def)

lemma step_backoff:
  assumes "\<not> is_Opened e"
  shows "(reconnectAttemptsRef (step s e) = reconnectAttemptsRef s \<and>
          scheduled_delays (step s e) = scheduled_delays s) \<or>
         (reconnectAttemptsRef (step s e) = Suc (reconnectAttemptsRef s) \<and>
          scheduled_delays (step s e) =
            scheduled_delays s @ [backoff_delay (reconnectAttemptsRef s)])"
proof (cases e)
  case (Opened w)
  with assms show ?thesis by simp
next
  case (Closed w)
  then show ?thesis by (simp add: onclose_def Let_def scheduled_delays_def)
next
  case (TimerFired h)
  then show ?thesis
    by (simp add: connect_keeps_backoff scheduled_delays_def map_update list_update_same_conv)
next
  case CallConnect
  then show ?thesis by (simp add: connect_keeps_backoff scheduled_delays_def)
next
  case CallReconnect
  then show ?thesis by (simp add: reconnect_def connect_keeps_backoff scheduled_delays_def)
next
  case CallDisconnect
  then show ?thesis by (simp add: disconnect_keeps_backoff scheduled_delays_def)
next
  case Unmount
  then show ?thesis by (simp add: cleanup_keeps_backoff scheduled_delays_def)
qed

lemma run_backoff:
  assumes "\<forall>e \<in> set es. \<not> is_Opened e"
  shows "\<exists>n. reconnectAttemptsRef (run s es) = reconnectAttemptsRef s + n \<and>
             scheduled_delays (run s es) =
               scheduled_delays s @
                 map backoff_delay [reconnectAttemptsRef s ..< reconnectAttemptsRef s + n]"
  using assms
proof (induction es arbitrary: s)
  case Nil
  show ?case by (simp add: run_def)
next
  case (Cons e es)
  then have e: "\<not> is_Opened e" and es: "\<forall>e \<in> set es. \<not> is_Opened e" by simp_all
  from Cons.IH [OF es, of "step s e"] obtain n where
    n: "reconnectAttemptsRef (run (step s e) es) = reconnectAttemptsRef (step s e) + n"
       "scheduled_delays (run (step s e) es) =
          scheduled_delays (step s e) @
            map backoff_delay
              [reconnectAttemptsRef (step s e) ..< reconnectAttemptsRef (step s e) + n]"
    by blast
  have r: "run s (e # es) = run (step s e) es" by (simp add: run_def)
  from step_backoff [OF e, of s] show ?case
  proof
    assume "reconnectAttemptsRef (step s e) = reconnectAttemptsRef s \<and>
          scheduled_delays (step s e) = scheduled_delays s"
    with n r show ?thesis by auto
  next
    assume a: "reconnectAttemptsRef (step s e) = Suc (reconnectAttemptsRef s) \<and>
          scheduled_delays (step s e) =
            scheduled_delays s @ [backoff_delay (reconnectAttemptsRef s)]"
    have "[reconnectAttemptsRef s ..< reconnectAttemptsRef s + Suc n] =
          reconnectAttemptsRef s #
            [Suc (reconnectAttemptsRef s) ..< Suc (reconnectAttemptsRef s) + n]"
      by (simp add: upt_conv_Cons)
    with a n r show ?thesis
      by (intro exI [of _ "Suc n"]) simp
  qed
qed

lemma backoff_capped: "5 \<le> n \<Longrightarrow> backoff_delay n = 30000"
proof -
  assume "5 \<le> n"
  then have "(2::nat) ^ 5 \<le> 2 ^ n" by (rule power_increasing) simp
  then show ?thesis by (simp add: backoff_delay_def)
qed

lemma backoff_first:
  "map backoff_delay [0..<7] = [1000, 2000, 4000, 8000, 16000, 30000, 30000]"
  by (simp add: backoff_delay_def upt_rec)

lemma opened_resets:
  "readyStateOf s w = Some CONNECTING \<Longrightarrow> reconnectAttemptsRef (step s (Opened w)) = 0"
  by (simp add: onopen_def)

text \<open>
  C2. The delay scheduled by the close that finds the attempt counter at \<open>n\<close> is
  \<open>min (1000 * 2 ^ n) 30000\<close> milliseconds, that is 1s, 2s, 4s, 8s, 16s and from then on
  30s. Every close of a socket schedules one reconnect with that delay and adds one to the
  counter. Over any run of events with no open among them, the delays scheduled are those
  of consecutive counter values starting at the counter's value before the run. An open of
  a connecting socket sets the counter to zero, so the next delay is 1s again.
\<close>

theorem reconnect_backoff:
  "backoff_delay n = min (1000 * 2 ^ n) 30000 \<and>
   map backoff_delay [0..<7] = [1000, 2000, 4000, 8000, 16000, 30000, 30000] \<and>
   (5 \<le> n \<longrightarrow> backoff_delay n = 30000) \<and>
   (w < length (sockets s) \<and> readyStateOf s w \<noteq> Some CLOSED \<longrightarrow>
      scheduled_delays (step s (Closed w)) =
        scheduled_delays s @ [backoff_delay (reconnectAttemptsRef s)] \<and>
      pending_timers (step s (Closed w)) =
        pending_timers s @ [backoff_delay (reconnectAttemptsRef s)] \<and>
      reconnectAttemptsRef (step s (Closed w)) = reconnectAttemptsRef s + 1) \<and>
   ((\<forall>e \<in> set es. \<not> is_Opened e) \<longrightarrow>
      reconnectAttemptsRef s \<le> reconnectAttemptsRef (run s es) \<and>
      scheduled_delays (run s es) =
        scheduled_delays s @
          map backoff_delay [reconnectAttemptsRef s ..< reconnectAttemptsRef (run s es)]) \<and>
   (readyStateOf s w = Some CONNECTING \<longrightarrow>
      reconnectAttemptsRef (step s (Opened w)) = 0 \<and>
      backoff_delay (reconnectAttemptsRef (step s (Opened w))) = 1000)"
proof -
  have a: "backoff_delay n = min (1000 * 2 ^ n) 30000"
    by (simp add: backoff_delay_def)
  have r: "(\<forall>e \<in> set es. \<not> is_Opened e) \<longrightarrow>
      reconnectAttemptsRef s \<le> reconnectAttemptsRef (run s es) \<and>
      scheduled_delays (run s es) =
        scheduled_delays s @
          map backoff_delay [reconnectAttemptsRef s ..< reconnectAttemptsRef (run s es)]"
  proof
    assume "\<forall>e \<in> set es. \<not> is_Opened e"
    from run_backoff [OF this, of s] show
      "reconnectAttemptsRef s \<le> reconnectAttemptsRef (run s es) \<and>
       scheduled_delays (run s es) =
         scheduled_delays s @
           map backoff_delay [reconnectAttemptsRef s ..< reconnectAttemptsRef (run s es)]"
      by auto
  qed
  have o: "readyStateOf s w = Some CONNECTING \<longrightarrow>
      reconnectAttemptsRef (step s (Opened w)) = 0 \<and>
      backoff_delay (reconnectAttemptsRef (step s (Opened w))) = 1000"
    by (simp add: onopen_def backoff_delay_def)
  from a backoff_first backoff_capped [of n] closed_schedules [of w s] r o
  show ?thesis by blast
qed

theorem reconnect_backoff_witness:
  "(5::nat) \<le> 6 \<and> backoff_delay 6 = 30000 \<and>
   0 < length (sockets (connect initial_state)) \<and>
   readyStateOf (connect initial_state) 0 \<noteq> Some CLOSED \<and>
   readyStateOf (connect initial_state) 0 = Some CONNECTING \<and>
   list_all (\<lambda>e. \<not> is_Opened e) [Closed 0, TimerFired 0, Closed 1, TimerFired 1, Closed 2] \<and>
   scheduled_delays (step (connect initial_state) (Closed 0)) = [1000] \<and>
   scheduled_delays
     (run (connect initial_state) [Closed 0, TimerFired 0, Closed 1, TimerFired 1, Closed 2])
     = [1000, 2000, 4000] \<and>
   reconnectAttemptsRef (step (connect initial_state) (Opened 0)) = 0"
  using reconnect_backoff [of 6 0 "connect initial_state"
      "[Closed 0, TimerFired 0, Closed 1, TimerFired 1, Closed 2]"]
  by (simp add: run_def initial_state_def connect_def onopen_def onclose_def readyStateOf_def
        backoff_delay_def scheduled_delays_def pending_timers_def Let_def)

section \<open>Reconnect, teardown and concurrent connects\<close>

lemmas hook_defs = run_def initial_state_def connect_def reconnect_def disconnect_def cleanup_def
  onopen_def onclose_def readyStateOf_def clearTimeout_def ws_close_def backoff_delay_def
  pending_timers_def scheduled_delays_def Let_def

lemma connect_ignored_when_open:
  "wsRef s = Some w \<Longrightarrow> readyStateOf s w = Some OPEN \<Longrightarrow> connect s = s"
  by (simp add: connect_def)

text \<open>
  C3. What \<open>reconnect\<close> does in the hook. On an open connection it changes nothing: the
  socket stays open and no new socket is created. After a close has scheduled a retry and
  raised the attempt counter to 1, it creates a socket at once but leaves the retry pending
  and the counter at 1, and the retry then creates one more socket.
\<close>

theorem reconnect_is_connect:
  "reconnect (run initial_state [CallConnect, Opened 0])
     = run initial_state [CallConnect, Opened 0] \<and>
   sockets (run initial_state [CallConnect, Opened 0, CallReconnect]) = [OPEN] \<and>
   pending_timers (run initial_state [CallConnect, Closed 0]) = [1000] \<and>
   pending_timers (run initial_state [CallConnect, Closed 0, CallReconnect]) = [1000] \<and>
   reconnectAttemptsRef (run initial_state [CallConnect, Closed 0, CallReconnect]) = 1 \<and>
   sockets (run initial_state [CallConnect, Closed 0, CallReconnect, TimerFired 0])
     = [CLOSED, CONNECTING, CONNECTING]"
  by (simp add: hook_defs)

text \<open>
  C8. What teardown does in the hook. Unmounting with an open connection starts closing the
  socket and leaves no timer pending; when the socket's close event then arrives, the close
  handler schedules a reconnect after 1s, and that timer opens a new socket. The exposed
  \<open>disconnect\<close> behaves the same.
\<close>

theorem teardown_reschedules_reconnect:
  "sockets (run initial_state [CallConnect, Opened 0, Unmount]) = [CLOSING] \<and>
   pending_timers (run initial_state [CallConnect, Opened 0, Unmount]) = [] \<and>
   pending_timers (run initial_state [CallConnect, Opened 0, Unmount, Closed 0]) = [1000] \<and>
   sockets (run initial_state [CallConnect, Opened 0, Unmount, Closed 0, TimerFired 0])
     = [CLOSED, CONNECTING] \<and>
   pending_timers (run initial_state [CallConnect, Opened 0, CallDisconnect, Closed 0])
     = [1000] \<and>
   sockets (run initial_state [CallConnect, Opened 0, CallDisconnect, Closed 0, TimerFired 0])
     = [CLOSED, CONNECTING]"
  by (simp add: hook_defs)

text \<open>
  C9. What a second \<open>connect\<close> does in the hook while the first socket is still connecting:
  it creates a second socket, so two connection attempts are in flight, and \<open>wsRef\<close> moves
  to the second one.
\<close>

theorem connect_while_connecting:
  "sockets (run initial_state [CallConnect]) = [CONNECTING] \<and>
   sockets (run initial_state [CallConnect, CallConnect]) = [CONNECTING, CONNECTING] \<and>
   wsRef (run initial_state [CallConnect, CallConnect]) = Some 1"
  by (simp add: hook_defs)

section \<open>World bounds\<close>

lemma img_onload_grows:
  "bounds_superset (worldBounds (img_onload c d cx cz w h)) (worldBounds c)"
  by (simp add: img_onload_def bounds_superset_def Let_def)

lemma bounds_superset_refl: "bounds_superset b b"
  by (simp add: bounds_superset_def)

lemma bounds_superset_trans:
  "bounds_superset c b \<Longrightarrow> bounds_superset b a \<Longrightarrow> bounds_superset c a"
  by (auto simp: bounds_superset_def split: if_splits)

text \<open>Tile loads alone never shrink the bounds, whatever was processed before them.\<close>

lemma tile_loads_monotone:
  "list_all is_TileLoaded es \<Longrightarrow>
   bounds_superset (worldBounds (foldl bounds_step c (pre @ es)))
     (worldBounds (foldl bounds_step c pre))"
proof (induction es rule: rev_induct)
  case Nil
  show ?case by (simp add: bounds_superset_refl)
next
  case (snoc e es)
  then have ih: "bounds_superset (worldBounds (foldl bounds_step c (pre @ es)))
                   (worldBounds (foldl bounds_step c pre))"
    and e: "is_TileLoaded e" by simp_all
  from e obtain d cx cz w h where "e = TileLoaded d cx cz w h" by (cases e) simp_all
  then have "bounds_superset (worldBounds (foldl bounds_step c (pre @ es @ [e])))
               (worldBounds (foldl bounds_step c (pre @ es)))"
    using img_onload_grows [of "foldl bounds_step c (pre @ es)" d cx cz w h] by simp
  with ih show ?case by (simp add: bounds_superset_trans)
qed

text \<open>
  C6. What the bounds do when a tile loads before the sessions arrive. After the tile of
  chunk \<open>(0, 0)\<close> has loaded the bounds are \<open>[0, 16] \<times> [0, 16]\<close>; when a historical session
  with a point at \<open>(1000, 1000)\<close> then arrives, the bounds become
  \<open>[900, 1100] \<times> [900, 1100]\<close>, which does not contain the earlier rectangle.
\<close>

theorem bounds_shrink_on_seeding:
  "worldBounds (bounds_step initial_canvas (TileLoaded ''overworld'' 0 0 512 512))
     = \<lparr>minX = 0, maxX = 16, minZ = 0, maxZ = 16, initialized = True\<rparr> \<and>
   worldBounds (bounds_step (bounds_step initial_canvas (TileLoaded ''overworld'' 0 0 512 512))
       (SessionsChanged [mk_session ''H'' False [mk_point 1000 1000]] ''overworld''))
     = \<lparr>minX = 900, maxX = 1100, minZ = 900, maxZ = 1100, initialized = True\<rparr> \<and>
   \<not> bounds_superset
       (worldBounds
          (bounds_step (bounds_step initial_canvas (TileLoaded ''overworld'' 0 0 512 512))
             (SessionsChanged [mk_session ''H'' False [mk_point 1000 1000]] ''overworld'')))
       (worldBounds (bounds_step initial_canvas (TileLoaded ''overworld'' 0 0 512 512)))"
  by (simp add: initial_canvas_def reset_bounds_def img_onload_def auto_center_def CHUNK_SIZE_def
        fullDimId_def DIMENSION_FULL_IDS_def bounds_superset_def Let_def List.map_filter_def)

section \<open>Chevron density\<close>














section \<open>Centering\<close>

text \<open>
  C10. For every world point \<open>(x, z)\<close> and every prior transform, \<open>centerOnPosition\<close> sets the
  scale to the maximum of the previous scale and 4, and \<open>worldToScreen x z\<close> under the new
  transform is exactly the centre of the viewport.
\<close>

theorem centerOnPosition_centers:
  "scale (centerOnPosition tr x z) = max (scale tr) 4 \<and>
   worldToScreen (centerOnPosition tr x z) dimensions x z =
     (width dimensions / 2, height dimensions / 2)"
  by (simp add: centerOnPosition_def worldToScreen_def Let_def)

end
